theory Spec2Isabelle
  imports Complex_Main "HOL-Library.Log_Nat"
begin

section \<open>Exceptions and effectful operations\<close>

text \<open>
  The tools of the invoice agent raise Python exceptions and draw from the random
  generator. An operation is therefore a function of an explicit world state that
  returns either the exception it raised (\<open>Inl\<close>) or its value (\<open>Inr\<close>), together
  with the world it leaves behind. Only exceptions derived from \<open>Exception\<close> are
  modelled, which is what \<open>except Exception\<close> catches.
\<close>

datatype exn =
    TimeoutError string
  | ValidationError string
  | OtherException string

fun str_exn :: "exn \<Rightarrow> string" where
  "str_exn (TimeoutError m) = m"
| "str_exn (ValidationError m) = m"
| "str_exn (OtherException m) = m"

type_synonym ('s, 'a) operation = "'s \<Rightarrow> (exn + 'a) \<times> 's"

section \<open>worker.py: the retry and fallback wrapper\<close>

text \<open>
  \<^verbatim>\<open>
  last_error = None
  for attempt in range(max_retries):
      try:
          result = fn(*args, **kwargs)
          return result, None, False
      except Exception as e:
          last_error = e
          if attempt == max_retries - 1:
              return fallback_result, last_error, True
  return fallback_result, last_error, True
  \<close>
  \<open>retry_loop\<close> is the \<open>for\<close> loop entered at index \<open>attempt\<close>; \<open>fn\<close> stands for the
  operation with its arguments already applied. \<open>max_retries\<close> is a Python \<open>int\<close>.
\<close>

function retry_loop ::
  "('s, 'a) operation \<Rightarrow> 'a \<Rightarrow> int \<Rightarrow> int \<Rightarrow> exn option \<Rightarrow> 's
     \<Rightarrow> ('a \<times> exn option \<times> bool) \<times> 's" where
  "retry_loop fn fallback_result max_retries attempt last_error s =
     (if attempt < max_retries then
        (case fn s of
           (Inr result, s') \<Rightarrow> ((result, None, False), s')
         | (Inl e, s') \<Rightarrow>
             (if attempt = max_retries - 1 then ((fallback_result, Some e, True), s')
              else retry_loop fn fallback_result max_retries (attempt + 1) (Some e) s'))
      else ((fallback_result, last_error, True), s))"
  by pat_completeness auto
termination
  by (relation "measure (\<lambda>(fn, fb, m, a, le, s). nat (m - a))") auto

declare retry_loop.simps [simp del]

definition run_with_retry_and_fallback ::
  "('s, 'a) operation \<Rightarrow> 'a \<Rightarrow> int \<Rightarrow> 's \<Rightarrow> ('a \<times> exn option \<times> bool) \<times> 's" where
  "run_with_retry_and_fallback fn fallback_result max_retries s =
     retry_loop fn fallback_result max_retries 0 None s"

subsection \<open>Vocabulary for statements about attempts\<close>

text \<open>
  \<open>after_calls fn n s\<close> is the world after \<open>n\<close> successive invocations of \<open>fn\<close> from
  \<open>s\<close>, and \<open>attempt_outcome fn k s\<close> is what the \<open>k\<close>-th invocation (counted from 1)
  raises or returns. \<open>counted fn\<close> is \<open>fn\<close> with a call counter beside the world, as a
  test double with a call count would be.
\<close>

fun after_calls :: "('s, 'a) operation \<Rightarrow> nat \<Rightarrow> 's \<Rightarrow> 's" where
  "after_calls fn 0 s = s"
| "after_calls fn (Suc n) s = after_calls fn n (snd (fn s))"

definition attempt_outcome :: "('s, 'a) operation \<Rightarrow> nat \<Rightarrow> 's \<Rightarrow> exn + 'a" where
  "attempt_outcome fn k s = fst (fn (after_calls fn (k - 1) s))"

definition counted :: "('s, 'a) operation \<Rightarrow> ('s \<times> nat, 'a) operation" where
  "counted fn = (\<lambda>(s, n). case fn s of (r, s') \<Rightarrow> (r, (s', Suc n)))"

definition raises_on_first :: "('s, 'a) operation \<Rightarrow> nat \<Rightarrow> 's \<Rightarrow> bool" where
  "raises_on_first fn n s = (\<forall>k \<in> {1..n}. isl (attempt_outcome fn k s))"

text \<open>A scripted operation for concrete runs: the \<open>i\<close>-th call answers \<open>script i\<close>.\<close>

definition scripted :: "(nat \<Rightarrow> exn + 'a) \<Rightarrow> (nat, 'a) operation" where
  "scripted script = (\<lambda>i. (script i, Suc i))"

section \<open>models.py and tools.py: records and the mocked external systems\<close>

text \<open>
  The pydantic models are records; field \<open>f\<close> of a model is written with a short prefix
  for the model (\<open>inv_\<close>, \<open>po_\<close>, \<open>rr_\<close>, ...) because several models share field
  names. A \<open>Decimal\<close> is a rational number, and a finite Python \<open>float\<close> is the
  rational number it holds, so that comparing floats is comparing these numbers. The
  conversion \<open>float(amount)\<close> of a \<open>Decimal\<close> is not the identity: it is written out
  where the code applies it (\<open>to_float\<close> in \<open>reconcile_node\<close>). \<open>model_dump()\<close> turns a
  model into a dictionary with the same fields, so a dumped model is the record itself.
\<close>

record Invoice =
  inv_invoice_id :: string
  inv_vendor_id :: string
  inv_vendor_name :: string
  inv_amount :: rat
  inv_currency :: string
  inv_due_date :: "string option"
  inv_line_items :: "(string \<times> string) list list"
  inv_status :: string

record PurchaseOrder =
  po_po_id :: string
  po_vendor_id :: string
  po_total_amount :: rat
  po_status :: string
  po_line_items :: "(string \<times> string) list list"

record ReconciliationResult =
  rr_invoice_id :: string
  rr_po_id :: string
  rr_match_score :: rat
  rr_amount_match :: bool
  rr_message :: string

record FetchInvoicesInput =
  fi_vendor_id :: "string option"
  fi_limit :: int

record MatchInvoiceInput =
  mi_invoice_id :: string
  mi_po_id :: string

text \<open>
  The random generator. \<open>timeout_draw w i\<close> says whether the \<open>i\<close>-th draw, used as
  \<open>random.random() < 0.15\<close>, is below 0.15; \<open>randint_draw w i\<close> is the raw value behind
  \<open>random.randint(1000, 9999)\<close> at draw \<open>i\<close>; \<open>draws w\<close> counts the draws made so far.
\<close>

record rng =
  timeout_draw :: "nat \<Rightarrow> bool"
  randint_draw :: "nat \<Rightarrow> nat"
  draws :: nat

definition next_draw :: "rng \<Rightarrow> rng" where
  "next_draw w = w\<lparr>draws := Suc (draws w)\<rparr>"

text \<open>Validation done by the constructor \<open>FetchInvoicesInput(...)\<close>: \<open>limit\<close> has \<open>ge=1, le=100\<close>.\<close>

definition new_FetchInvoicesInput :: "string option \<Rightarrow> int \<Rightarrow> exn + FetchInvoicesInput" where
  "new_FetchInvoicesInput vendor_id limit =
     (if 1 \<le> limit \<and> limit \<le> 100 then Inr \<lparr>fi_vendor_id = vendor_id, fi_limit = limit\<rparr>
      else Inl (ValidationError ''1 validation error for FetchInvoicesInput''))"

text \<open>The slice \<open>items[:limit]\<close>; a negative \<open>limit\<close> drops that many items from the end.\<close>

definition slice_to :: "'a list \<Rightarrow> int \<Rightarrow> 'a list" where
  "slice_to items limit =
     (if 0 \<le> limit then take (nat limit) items
      else take (length items - nat (- limit)) items)"

definition mock_invoice_items :: "Invoice list" where
  "mock_invoice_items =
     [\<lparr>inv_invoice_id = ''INV-001'', inv_vendor_id = ''V001'', inv_vendor_name = ''Acme Corp'',
       inv_amount = 10000, inv_currency = ''USD'', inv_due_date = None, inv_line_items = [],
       inv_status = ''pending''\<rparr>,
      \<lparr>inv_invoice_id = ''INV-002'', inv_vendor_id = ''V001'', inv_vendor_name = ''Acme Corp'',
       inv_amount = 500, inv_currency = ''USD'', inv_due_date = None, inv_line_items = [],
       inv_status = ''pending''\<rparr>,
      \<lparr>inv_invoice_id = ''INV-003'', inv_vendor_id = ''V002'', inv_vendor_name = ''Beta Inc'',
       inv_amount = 2500, inv_currency = ''USD'', inv_due_date = None, inv_line_items = [],
       inv_status = ''pending''\<rparr>]"

text \<open>
  \<open>_mock_invoices\<close>: one draw decides the simulated timeout; \<open>if vendor_id:\<close> filters
  only for a vendor id that is neither \<open>None\<close> nor empty.
\<close>

definition mock_invoices :: "string option \<Rightarrow> int \<Rightarrow> (rng, Invoice list) operation" where
  "mock_invoices vendor_id limit w =
     (if timeout_draw w (draws w) then (Inl (TimeoutError ''ERP API timeout''), next_draw w)
      else
        (let items = mock_invoice_items;
             items = (case vendor_id of
                        None \<Rightarrow> items
                      | Some v \<Rightarrow> if v = [] then items
                                  else filter (\<lambda>i. inv_vendor_id i = v) items)
         in (Inr (slice_to items limit), next_draw w)))"

definition mock_pos :: "PurchaseOrder list" where
  "mock_pos =
     [\<lparr>po_po_id = ''PO-101'', po_vendor_id = ''V001'', po_total_amount = 10000,
       po_status = ''open'', po_line_items = []\<rparr>,
      \<lparr>po_po_id = ''PO-102'', po_vendor_id = ''V001'', po_total_amount = 500,
       po_status = ''open'', po_line_items = []\<rparr>,
      \<lparr>po_po_id = ''PO-201'', po_vendor_id = ''V002'', po_total_amount = 2500,
       po_status = ''open'', po_line_items = []\<rparr>]"

definition fetch_pending_invoices :: "FetchInvoicesInput \<Rightarrow> (rng, Invoice list) operation" where
  "fetch_pending_invoices args w = mock_invoices (fi_vendor_id args) (fi_limit args) w"

text \<open>
  \<open>match_invoice_to_po\<close>. \<open>next((... ), None)\<close> is the first element that satisfies the
  test, \<open>find\<close>. The call to \<open>_mock_invoices(limit=100)\<close> can time out, and then the
  exception leaves the function.
\<close>

definition match_invoice_to_po :: "MatchInvoiceInput \<Rightarrow> (rng, ReconciliationResult) operation" where
  "match_invoice_to_po args w =
     (case mock_invoices None 100 w of
        (Inl e, w') \<Rightarrow> (Inl e, w')
      | (Inr invoices, w') \<Rightarrow>
          (let pos = mock_pos;
               found_inv = find (\<lambda>i. inv_invoice_id i = mi_invoice_id args) invoices;
               found_po = find (\<lambda>p. po_po_id p = mi_po_id args) pos
           in case (found_inv, found_po) of
                (Some i, Some p) \<Rightarrow>
                  (let amount_match = (\<bar>inv_amount i - po_total_amount p\<bar> < 1 / 100);
                       score = (if inv_vendor_id i = po_vendor_id p \<and> amount_match
                                then 1 else 1 / 2)
                   in (Inr \<lparr>rr_invoice_id = mi_invoice_id args, rr_po_id = mi_po_id args,
                            rr_match_score = score, rr_amount_match = amount_match,
                            rr_message = (if 1 / 2 \<le> score then ''Match found'' else ''No match'')\<rparr>,
                       w'))
              | _ \<Rightarrow>
                  (Inr \<lparr>rr_invoice_id = mi_invoice_id args, rr_po_id = mi_po_id args,
                        rr_match_score = 0, rr_amount_match = False,
                        rr_message = ''Invoice or PO not found''\<rparr>,
                   w')))"

text \<open>
  \<open>execute_payment\<close>. The result dictionary has one of two shapes, told apart by its
  \<open>status\<close> entry. \<open>time.sleep\<close> is not modelled. The reference is
  \<open>PAY-<invoice_id>-<n>\<close> with \<open>n\<close> drawn from 1000 to 9999.
\<close>

datatype status = Pending | Awaiting_approval | Paid | Cancelled | Failed

datatype payment_result =
    Payment_cancelled (pr_invoice_id: string) (pr_reason: string)
  | Payment_paid (pr_invoice_id: string) (pr_amount_usd: rat) (pr_vendor_id: string)
      (pr_reference: string)

fun pr_status :: "payment_result \<Rightarrow> status" where
  "pr_status (Payment_cancelled _ _) = Cancelled"
| "pr_status (Payment_paid _ _ _ _) = Paid"

definition digit_char :: "nat \<Rightarrow> char" where
  "digit_char d = ''0123456789'' ! (d mod 10)"

fun show_nat :: "nat \<Rightarrow> string" where
  "show_nat n = (if n < 10 then [digit_char n] else show_nat (n div 10) @ [digit_char (n mod 10)])"

declare show_nat.simps [simp del]

definition execute_payment ::
  "string \<Rightarrow> rat \<Rightarrow> string \<Rightarrow> bool \<Rightarrow> rng \<Rightarrow> payment_result \<times> rng" where
  "execute_payment invoice_id amount_usd vendor_id approved w =
     (if \<not> approved then (Payment_cancelled invoice_id ''User did not approve'', w)
      else
        (Payment_paid invoice_id amount_usd vendor_id
           (''PAY-'' @ invoice_id @ ''-'' @ show_nat (1000 + randint_draw w (draws w) mod 9000)),
         next_draw w))"

section \<open>worker.py: the reconciliation step\<close>

definition run_fetch_invoices :: "string option \<Rightarrow> int \<Rightarrow> (rng, Invoice list) operation" where
  "run_fetch_invoices vendor_id limit w =
     (case new_FetchInvoicesInput vendor_id limit of
        Inl e \<Rightarrow> (Inl e, w)
      | Inr inp \<Rightarrow> fetch_pending_invoices inp w)"

definition run_match_invoice :: "string \<Rightarrow> string \<Rightarrow> (rng, ReconciliationResult) operation" where
  "run_match_invoice invoice_id po_id w =
     match_invoice_to_po \<lparr>mi_invoice_id = invoice_id, mi_po_id = po_id\<rparr> w"

text \<open>
  An element of \<open>reconciled\<close>: \<open>{"invoice": inv, "match": ...}\<close>, with an \<open>"error"\<close>
  entry only when matching raised (\<open>ri_error = None\<close> is the absent entry).
\<close>

record reconciled_item =
  ri_invoice :: Invoice
  ri_match :: "ReconciliationResult option"
  ri_error :: "string option"

text \<open>
  \<open>reconcile_step\<close> calls the module-level functions \<open>run_fetch_invoices\<close> and
  \<open>run_match_invoice\<close>. They are parameters here (\<open>fetch\<close>, \<open>match\<close>), so that the
  properties hold for whatever the two tools return or raise; \<open>reconcile_step_mock\<close>
  below is the step with the repository's own tools. \<open>reconcile_items\<close> is the loop
  \<^verbatim>\<open>
  for inv in (invoices or [])[:3]:
      inv_id = inv.get("invoice_id", "")
      vid = inv.get("vendor_id") or ""
      po_id = "PO-101" if vid == "V001" else ("PO-201" if vid == "V002" else "PO-101")
      try:
          match = run_match_invoice(inv_id, po_id)
          reconciled.append({"invoice": inv, "match": match.model_dump()})
      except Exception as e:
          reconciled.append({"invoice": inv, "match": None, "error": str(e)})
  \<close>
  run over the invoices still to be visited.
\<close>

fun reconcile_items ::
  "(string \<Rightarrow> string \<Rightarrow> ('s, ReconciliationResult) operation) \<Rightarrow> Invoice list \<Rightarrow> 's
     \<Rightarrow> reconciled_item list \<times> 's" where
  "reconcile_items match [] w = ([], w)"
| "reconcile_items match (invoice # invs) w =
     (let inv_id = inv_invoice_id invoice;
          vid = inv_vendor_id invoice;
          po_id = (if vid = ''V001'' then ''PO-101''
                   else (if vid = ''V002'' then ''PO-201'' else ''PO-101''));
          (r, w') = match inv_id po_id w;
          item = (case r of
                    Inr m \<Rightarrow> \<lparr>ri_invoice = invoice, ri_match = Some m, ri_error = None\<rparr>
                  | Inl e \<Rightarrow> \<lparr>ri_invoice = invoice, ri_match = None, ri_error = Some (str_exn e)\<rparr>);
          (rest, w'') = reconcile_items match invs w'
      in (item # rest, w''))"

definition reconcile_step ::
  "int \<Rightarrow> (string option \<Rightarrow> int \<Rightarrow> ('s, Invoice list) operation)
     \<Rightarrow> (string \<Rightarrow> string \<Rightarrow> ('s, ReconciliationResult) operation)
     \<Rightarrow> string option \<Rightarrow> int \<Rightarrow> 's \<Rightarrow> (reconciled_item list \<times> exn option \<times> bool) \<times> 's" where
  "reconcile_step MAX_TOOL_RETRIES fetch match vendor_id limit w =
     (let fallback_invoices = [];
          ((invoices, err, used_fallback), w') =
             run_with_retry_and_fallback (fetch vendor_id limit) fallback_invoices
               MAX_TOOL_RETRIES w
      in if err \<noteq> None then (([], err, used_fallback), w')
         else
           (let (reconciled, w'') = reconcile_items match (take 3 invoices) w'
            in ((reconciled, None, used_fallback), w'')))"

definition reconcile_step_mock ::
  "int \<Rightarrow> string option \<Rightarrow> int \<Rightarrow> rng \<Rightarrow> (reconciled_item list \<times> exn option \<times> bool) \<times> rng" where
  "reconcile_step_mock MAX_TOOL_RETRIES =
     reconcile_step MAX_TOOL_RETRIES run_fetch_invoices run_match_invoice"

section \<open>state.py and graph.py: the workflow\<close>

text \<open>
  \<open>InvoiceReconciliationState\<close> is a \<open>TypedDict\<close> with \<open>total=False\<close>: every key may be
  absent, and the nodes read it with \<open>state.get\<close>, which gives \<open>None\<close> for an absent key
  as for a key holding \<open>None\<close>. Each field is therefore an option. \<open>messages\<close> is never
  read or written by a node and is left out. A node returns a dictionary of updates that
  the graph engine writes over the state key by key; a node is modelled as the function
  from the state to the state so updated. graph.py ends, after \<open>build_graph\<close>, with a
  few lines that are not Python; the functions above them are modelled as written.
\<close>

record pending_payment =
  pp_invoice_id :: string
  pp_amount :: rat
  pp_vendor_id :: string

record hitl_prompt =
  hp_question :: string
  hp_invoice_id :: string
  hp_amount_usd :: rat
  hp_approval_threshold_usd :: rat

record state =
  st_vendor_id :: "string option"
  st_reconciled :: "reconciled_item list option"
  st_pending_payment :: "pending_payment option"
  st_approval :: "bool option"
  st_hitl_prompt :: "hitl_prompt option"
  st_last_error :: "string option"
  st_retry_count :: "int option"
  st_used_fallback :: "bool option"
  st_status :: "status option"
  st_result :: "payment_result option"

text \<open>
  The \<open>/run\<close> handler of app.py invokes the graph with the input
  \<^verbatim>\<open>{"vendor_id": req.vendor_id, "messages": [], "retry_count": 0}\<close>
  under the caller's thread id. \<open>run_input vendor_id st\<close> is the state the run starts
  with on a thread whose persisted state is \<open>st\<close>: the input written over it key by key,
  every other key as the thread holds it. On a thread with nothing persisted that is
  \<open>initial_state vendor_id\<close>.
\<close>

definition initial_state :: "string option \<Rightarrow> state" where
  "initial_state vendor_id =
     \<lparr>st_vendor_id = vendor_id, st_reconciled = None, st_pending_payment = None,
      st_approval = None, st_hitl_prompt = None, st_last_error = None,
      st_retry_count = Some 0, st_used_fallback = None, st_status = None, st_result = None\<rparr>"



text \<open>Rounding to the nearest integer, ties to the even one.\<close>

definition round_half_even :: "rat \<Rightarrow> int" where
  "round_half_even x =
     (let f = \<lfloor>x\<rfloor>; d = x - of_int f
      in if d < 1 / 2 then f else if 1 / 2 < d then f + 1 else if even f then f else f + 1)"



text \<open>
  The format \<open>{amount_usd:,.2f}\<close>: two decimals, ties to even, thousands separated by
  commas.
\<close>

fun group_thousands :: "string \<Rightarrow> string" where
  "group_thousands ds =
     (if length ds \<le> 3 then ds
      else group_thousands (take (length ds - 3) ds) @ '','' @ drop (length ds - 3) ds)"

declare group_thousands.simps [simp del]

definition format_2f :: "rat \<Rightarrow> string" where
  "format_2f x =
     (let c = nat (round_half_even (\<bar>x\<bar> * 100))
      in (if x < 0 then ''-'' else '''') @ group_thousands (show_nat (c div 100)) @ ''.''
         @ [digit_char (c mod 100 div 10), digit_char (c mod 10)])"

text \<open>
  \<open>check_approval_node\<close>. \<open>interrupt(prompt)\<close> suspends the node when the run has no
  resume value, and returns the resume value when the node is run again on resume: the
  argument \<open>resume\<close> is that value, \<open>None\<close> on the first execution. The call to
  \<open>get_payment_summary\<close> has no effect and its result is dropped.
\<close>

datatype node_result = Interrupt hitl_prompt | Update state

definition check_approval_node :: "rat \<Rightarrow> state \<Rightarrow> bool option \<Rightarrow> node_result" where
  "check_approval_node HITL_APPROVAL_THRESHOLD_USD st resume =
     (let amount_usd = (case st_pending_payment st of None \<Rightarrow> 0 | Some p \<Rightarrow> pp_amount p);
          invoice_id = (case st_pending_payment st of None \<Rightarrow> '''' | Some p \<Rightarrow> pp_invoice_id p);
          threshold = HITL_APPROVAL_THRESHOLD_USD;
          needs_approval = (threshold \<le> amount_usd)
      in if \<not> needs_approval then
           Update (st\<lparr>st_approval := Some True, st_status := Some Pending,
                       st_hitl_prompt := None\<rparr>)
         else
           (let prompt = \<lparr>hp_question = ''Ready to pay this $'' @ format_2f amount_usd
                                            @ '' invoice. Approve?'',
                          hp_invoice_id = invoice_id,
                          hp_amount_usd = amount_usd,
                          hp_approval_threshold_usd = threshold\<rparr>
            in case resume of
                 None \<Rightarrow> Interrupt prompt
               | Some decision \<Rightarrow>
                   (let approved = decision
                    in Update (st\<lparr>st_approval := Some approved,
                                   st_hitl_prompt := Some prompt,
                                   st_status := Some (if \<not> approved then Cancelled else Pending)\<rparr>))))"

text \<open>
  \<open>execute_payment_node\<close>. \<open>Decimal(str(amount))\<close> and, in \<open>execute_payment\<close>,
  \<open>str(amount_usd)\<close> print the float of the pending payment and read it back; they are
  modelled as keeping its number.
\<close>

definition execute_payment_node :: "state \<Rightarrow> rng \<Rightarrow> state \<times> rng" where
  "execute_payment_node st w =
     (let approved = (case st_approval st of None \<Rightarrow> False | Some b \<Rightarrow> b);
          invoice_id = (case st_pending_payment st of None \<Rightarrow> '''' | Some p \<Rightarrow> pp_invoice_id p);
          amount_usd = (case st_pending_payment st of None \<Rightarrow> 0 | Some p \<Rightarrow> pp_amount p);
          vendor_id = (case st_pending_payment st of None \<Rightarrow> '''' | Some p \<Rightarrow> pp_vendor_id p);
          (result, w') = execute_payment invoice_id amount_usd vendor_id approved w
      in (st\<lparr>st_result := Some result,
              st_status := Some (if approved then pr_status result else Cancelled)\<rparr>, w'))"

datatype node = Check_approval | Execute_payment | END


definition route_after_approval :: "state \<Rightarrow> node" where
  "route_after_approval st =
     (if st_status st = Some Cancelled then END else Execute_payment)"

text \<open>
  \<open>build_graph\<close>: START to reconcile, then the two conditional edges, then
  execute_payment to END. \<open>from_check_approval\<close> is the graph entered at check_approval,
  which is where a resumed run continues; \<open>invoke\<close> is a run from START and \<open>resume\<close>
  a resumption of a suspended run with the human decision.
\<close>

datatype run_result = Completed state | Suspended hitl_prompt state

definition from_check_approval :: "rat \<Rightarrow> state \<Rightarrow> bool option \<Rightarrow> rng \<Rightarrow> run_result \<times> rng" where
  "from_check_approval threshold st resume_value w =
     (case check_approval_node threshold st resume_value of
        Interrupt prompt \<Rightarrow> (Suspended prompt st, w)
      | Update st' \<Rightarrow>
          (case route_after_approval st' of
             Execute_payment \<Rightarrow>
               (let (st'', w') = execute_payment_node st' w in (Completed st'', w'))
           | _ \<Rightarrow> (Completed st', w)))"


definition resume :: "rat \<Rightarrow> bool \<Rightarrow> state \<Rightarrow> rng \<Rightarrow> run_result \<times> rng" where
  "resume threshold approved st w = from_check_approval threshold st (Some approved) w"


section \<open>security.py: redaction\<close>

text \<open>
  A Python value as far as \<open>redact_pii\<close> distinguishes values: a dictionary (its
  entries in order, keys strings), a list, or anything else; a tuple stands for the
  containers that are neither.
\<close>

datatype pyval =
    PNone
  | PBool bool
  | PInt int
  | PNum rat
  | PStr string
  | PList "pyval list"
  | PTuple "pyval list"
  | PDict "(string \<times> pyval) list"

definition PII_KEYS :: "string set" where
  "PII_KEYS = {''vendor_tax_id'', ''bank_account'', ''vendor_email'', ''buyer_email''}"

definition REDACT_PLACEHOLDER :: string where
  "REDACT_PLACEHOLDER = ''[REDACTED]''"

fun redact_pii :: "pyval \<Rightarrow> pyval" where
  "redact_pii (PDict kvs) =
     PDict (map (\<lambda>(k, v). (k, if k \<in> PII_KEYS then PStr REDACT_PLACEHOLDER
                                else redact_pii v)) kvs)"
| "redact_pii (PList xs) = PList (map redact_pii xs)"
| "redact_pii obj = obj"

subsection \<open>Vocabulary for statements about redaction\<close>

text \<open>
  \<open>json_like v\<close>: \<open>v\<close> is built from dictionaries, lists and atoms only, to any depth.
  \<open>pii_values v\<close> lists every value that \<open>v\<close> holds under a key of \<open>PII_KEYS\<close>, at any
  depth and inside any container.
\<close>

fun json_like :: "pyval \<Rightarrow> bool" where
  "json_like (PDict kvs) = (\<forall>kv \<in> set kvs. json_like (snd kv))"
| "json_like (PList xs) = (\<forall>x \<in> set xs. json_like x)"
| "json_like (PTuple xs) = False"
| "json_like obj = True"

fun pii_values :: "pyval \<Rightarrow> pyval list" where
  "pii_values (PDict kvs) =
     concat (map (\<lambda>(k, v). (if k \<in> PII_KEYS then [v] else []) @ pii_values v) kvs)"
| "pii_values (PList xs) = concat (map pii_values xs)"
| "pii_values (PTuple xs) = concat (map pii_values xs)"
| "pii_values obj = []"


subsection \<open>Vocabulary for statements about the reconciliation step\<close>

text \<open>
  \<open>po_policy\<close> is the lookup as the specification words it: vendor V001 to PO-101,
  vendor V002 to PO-201, anything else to PO-101. \<open>match_world match invoices i w\<close> is
  the world after the first \<open>i\<close> invoices have each been matched once, in order, from
  \<open>w\<close>. \<open>item_of invoice outcome\<close> is the reconciled item that records the outcome of
  one matching call. \<open>demo_rng\<close> is a generator whose draws 0 and 3 time out.
\<close>

definition po_policy :: "string \<Rightarrow> string" where
  "po_policy vendor =
     (if vendor = ''V001'' then ''PO-101'' else if vendor = ''V002'' then ''PO-201'' else ''PO-101'')"

fun match_world ::
  "(string \<Rightarrow> string \<Rightarrow> ('s, ReconciliationResult) operation) \<Rightarrow> Invoice list \<Rightarrow> nat \<Rightarrow> 's \<Rightarrow> 's" where
  "match_world match invoices 0 w = w"
| "match_world match invoices (Suc i) w =
     snd (match (inv_invoice_id (invoices ! i)) (po_policy (inv_vendor_id (invoices ! i)))
            (match_world match invoices i w))"

definition item_of :: "Invoice \<Rightarrow> exn + ReconciliationResult \<Rightarrow> reconciled_item" where
  "item_of invoice outcome =
     (case outcome of
        Inr m \<Rightarrow> \<lparr>ri_invoice = invoice, ri_match = Some m, ri_error = None\<rparr>
      | Inl e \<Rightarrow> \<lparr>ri_invoice = invoice, ri_match = None, ri_error = Some (str_exn e)\<rparr>)"


definition demo_rng :: rng where
  "demo_rng = \<lparr>timeout_draw = (\<lambda>i. i = 0 \<or> i = 3), randint_draw = (\<lambda>i. 42), draws = 0\<rparr>"


subsection \<open>Vocabulary for statements about runs\<close>











section \<open>Properties of the wrapper\<close>

lemma after_calls_Suc: "after_calls fn (Suc n) s = snd (fn (after_calls fn n s))"
  by (induction n arbitrary: s) simp_all

lemma retry_loop_success:
  "\<lbrakk>\<forall>i<n. isl (fst (fn (after_calls fn i s))); fst (fn (after_calls fn n s)) = Inr r;
    a + int n < m\<rbrakk>
   \<Longrightarrow> retry_loop fn fb m a le s = ((r, None, False), after_calls fn (Suc n) s)"
proof (induction n arbitrary: a le s)
  case 0
  then show ?case
    by (cases "fn s") (simp add: retry_loop.simps)
next
  case (Suc n)
  from Suc.prems(1) have "isl (fst (fn s))" by (metis after_calls.simps(1) zero_less_Suc)
  then obtain e s' where fs: "fn s = (Inl e, s')"
    by (cases "fn s") (auto simp: isl_def)
  have shift: "\<And>i. after_calls fn i s' = after_calls fn (Suc i) s"
    using fs by simp
  have "retry_loop fn fb m (a + 1) (Some e) s' = ((r, None, False), after_calls fn (Suc n) s')"
  proof (rule Suc.IH)
    show "\<forall>i<n. isl (fst (fn (after_calls fn i s')))"
      using Suc.prems(1) by (simp add: shift del: after_calls.simps)
    show "fst (fn (after_calls fn n s')) = Inr r"
      using Suc.prems(2) by (simp add: shift del: after_calls.simps)
    show "a + 1 + int n < m" using Suc.prems(3) by simp
  qed
  moreover have "a < m" "a \<noteq> m - 1" using Suc.prems(3) by simp_all
  ultimately show ?case
    using fs by (subst retry_loop.simps) simp
qed

lemma retry_loop_exhausted:
  "\<lbrakk>\<forall>i<Suc n. isl (fst (fn (after_calls fn i s))); fst (fn (after_calls fn n s)) = Inl e;
    a + int (Suc n) = m\<rbrakk>
   \<Longrightarrow> retry_loop fn fb m a le s = ((fb, Some e, True), after_calls fn (Suc n) s)"
proof (induction n arbitrary: a le s)
  case 0
  then show ?case
    by (cases "fn s") (simp add: retry_loop.simps)
next
  case (Suc n)
  from Suc.prems(1) have "isl (fst (fn s))" by (metis after_calls.simps(1) zero_less_Suc)
  then obtain e' s' where fs: "fn s = (Inl e', s')"
    by (cases "fn s") (auto simp: isl_def)
  have shift: "\<And>i. after_calls fn i s' = after_calls fn (Suc i) s"
    using fs by simp
  have "retry_loop fn fb m (a + 1) (Some e') s' = ((fb, Some e, True), after_calls fn (Suc n) s')"
  proof (rule Suc.IH)
    show "\<forall>i<Suc n. isl (fst (fn (after_calls fn i s')))"
      using Suc.prems(1) by (simp add: shift del: after_calls.simps)
    show "fst (fn (after_calls fn n s')) = Inl e"
      using Suc.prems(2) by (simp add: shift del: after_calls.simps)
    show "a + 1 + int (Suc n) = m" using Suc.prems(3) by simp
  qed
  moreover have "a < m" "a \<noteq> m - 1" using Suc.prems(3) by simp_all
  ultimately show ?case
    using fs by (subst retry_loop.simps) simp
qed

lemma retry_loop_no_budget:
  "m \<le> a \<Longrightarrow> retry_loop fn fb m a le s = ((fb, le, True), s)"
  by (simp add: retry_loop.simps)

lemma after_calls_counted:
  "after_calls (counted fn) n (s, c) = (after_calls fn n s, c + n)"
  by (induction n arbitrary: s c) (simp_all add: counted_def split: prod.splits)

lemma attempt_outcome_counted:
  "attempt_outcome (counted fn) k (s, c) = attempt_outcome fn k s"
  by (simp add: attempt_outcome_def after_calls_counted) (simp add: counted_def split: prod.splits)

lemma run_success:
  assumes "1 \<le> k" "int k \<le> max_retries" "raises_on_first fn (k - 1) s"
    and "attempt_outcome fn k s = Inr r"
  shows "run_with_retry_and_fallback fn fb max_retries s = ((r, None, False), after_calls fn k s)"
proof -
  obtain n where k: "k = Suc n" using assms(1) by (cases k) simp_all
  have "\<forall>i<n. isl (fst (fn (after_calls fn i s)))"
  proof (intro allI impI)
    fix i assume "i < n"
    then have "Suc i \<in> {1..k - 1}" using k by simp
    then have "isl (attempt_outcome fn (Suc i) s)"
      using assms(3) unfolding raises_on_first_def by blast
    then show "isl (fst (fn (after_calls fn i s)))" by (simp add: attempt_outcome_def)
  qed
  moreover have "fst (fn (after_calls fn n s)) = Inr r"
    using assms(4) k by (simp add: attempt_outcome_def)
  moreover have "0 + int n < max_retries" using assms(2) k by simp
  ultimately show ?thesis
    unfolding run_with_retry_and_fallback_def k by (rule retry_loop_success)
qed

lemma run_exhausted:
  assumes "1 \<le> max_retries" "raises_on_first fn (nat max_retries) s"
    and "attempt_outcome fn (nat max_retries) s = Inl e"
  shows "run_with_retry_and_fallback fn fb max_retries s
           = ((fb, Some e, True), after_calls fn (nat max_retries) s)"
proof -
  obtain n where m: "nat max_retries = Suc n" using assms(1) by (cases "nat max_retries") simp_all
  have "\<forall>i<Suc n. isl (fst (fn (after_calls fn i s)))"
  proof (intro allI impI)
    fix i assume "i < Suc n"
    then have "Suc i \<in> {1..nat max_retries}" using m by simp
    then have "isl (attempt_outcome fn (Suc i) s)"
      using assms(2) unfolding raises_on_first_def by blast
    then show "isl (fst (fn (after_calls fn i s)))" by (simp add: attempt_outcome_def)
  qed
  moreover have "fst (fn (after_calls fn n s)) = Inl e"
    using assms(3) m by (simp add: attempt_outcome_def)
  moreover have "0 + int (Suc n) = max_retries" using assms(1) m by linarith
  ultimately have "retry_loop fn fb max_retries 0 None s = ((fb, Some e, True), after_calls fn (Suc n) s)"
    by (rule retry_loop_exhausted)
  then show ?thesis
    unfolding run_with_retry_and_fallback_def m .
qed

lemma raises_on_first_counted:
  "raises_on_first (counted fn) n (s, c) = raises_on_first fn n s"
  by (simp add: raises_on_first_def attempt_outcome_counted)

text \<open>
  Claim C4. Let \<open>fn\<close> be any operation, run with a call counter from count 0. If the
  first \<open>k - 1\<close> invocations raise and the \<open>k\<close>-th returns \<open>r\<close>, with
  \<open>1 \<le> k \<le> max_retries\<close>, the wrapper returns \<open>(r, None, False)\<close> and leaves the world
  exactly as \<open>k\<close> invocations leave it, the counter at \<open>k\<close>. If all \<open>max_retries\<close>
  invocations raise (there is a last one, so \<open>1 \<le> max_retries\<close>) and the last raises
  \<open>e\<close>, it returns \<open>(fallback_result, e, True)\<close> after exactly \<open>max_retries\<close> invocations.
\<close>

theorem run_with_retry_and_fallback_attempts:
  "(1 \<le> k \<and> int k \<le> max_retries \<and> raises_on_first fn (k - 1) s
      \<and> attempt_outcome fn k s = Inr r
    \<longrightarrow> run_with_retry_and_fallback (counted fn) fallback_result max_retries (s, 0)
          = ((r, None, False), (after_calls fn k s, k)))
   \<and> (1 \<le> max_retries \<and> raises_on_first fn (nat max_retries) s
      \<and> attempt_outcome fn (nat max_retries) s = Inl e
    \<longrightarrow> run_with_retry_and_fallback (counted fn) fallback_result max_retries (s, 0)
          = ((fallback_result, Some e, True),
             (after_calls fn (nat max_retries) s, nat max_retries)))"
proof (intro conjI impI)
  assume h: "1 \<le> k \<and> int k \<le> max_retries \<and> raises_on_first fn (k - 1) s
      \<and> attempt_outcome fn k s = Inr r"
  then have "run_with_retry_and_fallback (counted fn) fallback_result max_retries (s, 0)
      = ((r, None, False), after_calls (counted fn) k (s, 0))"
    by (intro run_success) (simp_all add: raises_on_first_counted attempt_outcome_counted)
  then show "run_with_retry_and_fallback (counted fn) fallback_result max_retries (s, 0)
          = ((r, None, False), (after_calls fn k s, k))"
    by (simp add: after_calls_counted)
next
  assume h: "1 \<le> max_retries \<and> raises_on_first fn (nat max_retries) s
      \<and> attempt_outcome fn (nat max_retries) s = Inl e"
  then have "run_with_retry_and_fallback (counted fn) fallback_result max_retries (s, 0)
      = ((fallback_result, Some e, True), after_calls (counted fn) (nat max_retries) (s, 0))"
    by (intro run_exhausted) (simp_all add: raises_on_first_counted attempt_outcome_counted)
  then show "run_with_retry_and_fallback (counted fn) fallback_result max_retries (s, 0)
          = ((fallback_result, Some e, True),
             (after_calls fn (nat max_retries) s, nat max_retries))"
    by (simp add: after_calls_counted)
qed

theorem run_with_retry_and_fallback_attempts_witness:
  "run_with_retry_and_fallback
      (counted (scripted (\<lambda>i. if i < 1 then Inl (TimeoutError ''ERP API timeout'') else Inr (7::nat))))
      0 3 (0, 0)
     = ((7, None, False), (2, 2))
   \<and> run_with_retry_and_fallback
      (counted (scripted (\<lambda>i. Inl (TimeoutError ''ERP API timeout'')))) (0::nat) 3 (0, 0)
     = ((0, Some (TimeoutError ''ERP API timeout''), True), (3, 3))"
proof
  let ?fn = "scripted (\<lambda>i. if i < 1 then Inl (TimeoutError ''ERP API timeout'') else Inr (7::nat))"
  have a: "(1::nat) \<le> 2 \<and> int 2 \<le> 3 \<and> raises_on_first ?fn (2 - 1) 0
      \<and> attempt_outcome ?fn 2 0 = Inr 7"
    by (simp add: raises_on_first_def attempt_outcome_def scripted_def eval_nat_numeral)
  have b: "after_calls ?fn 2 0 = 2"
    by (simp add: scripted_def eval_nat_numeral)
  show "run_with_retry_and_fallback (counted ?fn) 0 3 (0, 0) = ((7, None, False), (2, 2))"
    using run_with_retry_and_fallback_attempts [of 2 3 ?fn 0 7 0, THEN conjunct1] a b
    by simp
next
  let ?fn = "scripted (\<lambda>i. Inl (TimeoutError ''ERP API timeout'')) :: (nat, nat) operation"
  have a: "(1::int) \<le> 3 \<and> raises_on_first ?fn (nat 3) 0
      \<and> attempt_outcome ?fn (nat 3) 0 = Inl (TimeoutError ''ERP API timeout'')"
    by (simp add: raises_on_first_def attempt_outcome_def scripted_def)
  have b: "after_calls ?fn (nat 3) 0 = 3"
    by (simp add: scripted_def eval_nat_numeral)
  show "run_with_retry_and_fallback (counted ?fn) 0 3 (0, 0)
     = ((0, Some (TimeoutError ''ERP API timeout''), True), (3, 3))"
    using run_with_retry_and_fallback_attempts
      [of _ 3 ?fn 0 _ 0 "TimeoutError ''ERP API timeout''", THEN conjunct2] a b
    by simp
qed

text \<open>
  Claim C9. With \<open>max_retries \<le> 0\<close> the operation is never invoked (the call counter and
  the world stay as they were) and the wrapper returns \<open>(fallback_result, None, True)\<close>:
  the fallback flag is set although nothing was attempted, and no error is reported.
\<close>

theorem run_with_retry_and_fallback_no_budget:
  "max_retries \<le> 0 \<Longrightarrow>
     run_with_retry_and_fallback (counted fn) fallback_result max_retries (s, 0)
       = ((fallback_result, None, True), (s, 0))"
  unfolding run_with_retry_and_fallback_def by (rule retry_loop_no_budget)

theorem run_with_retry_and_fallback_no_budget_witness:
  "(0::int) \<le> 0 \<and>
   run_with_retry_and_fallback (counted (scripted (\<lambda>i. Inr (7::nat)))) 0 0 (0, 0)
       = ((0, None, True), (0, 0))"
  using run_with_retry_and_fallback_no_budget [of 0 "scripted (\<lambda>i. Inr (7::nat))" 0 0]
  by simp

section \<open>Properties of the float conversion\<close>





section \<open>Properties of redaction\<close>

lemma pii_values_redact_pii:
  "json_like v \<Longrightarrow> x \<in> set (pii_values (redact_pii v)) \<Longrightarrow> x = PStr REDACT_PLACEHOLDER"
proof (induction v arbitrary: x rule: redact_pii.induct)
  case (1 kvs)
  then show ?case
    by (fastforce split: if_splits)
next
  case (2 xs)
  then show ?case by auto
qed simp_all

lemma redact_pii_idem: "redact_pii (redact_pii x) = redact_pii x"
proof (induction x rule: redact_pii.induct)
  case (1 kvs)
  then show ?case by (auto split: prod.splits)
next
  case (2 xs)
  then show ?case by simp
qed simp_all

text \<open>
  Claim C5. In a dictionary, the entry at every position keeps its key; its value is the
  placeholder \<open>[REDACTED]\<close> when the key is one of vendor_tax_id, bank_account,
  vendor_email, buyer_email, and the redaction of the old value otherwise. A list is
  redacted element by element. In the output for a JSON-like value, every value found
  under a PII key at any depth is the placeholder, so no original one is left.
\<close>

theorem redact_pii_redacts:
  "(\<exists>out. redact_pii (PDict kvs) = PDict out \<and> length out = length kvs \<and>
      (\<forall>i<length kvs. out ! i =
         (fst (kvs ! i),
          if fst (kvs ! i) \<in> {''vendor_tax_id'', ''bank_account'', ''vendor_email'', ''buyer_email''}
          then PStr ''[REDACTED]'' else redact_pii (snd (kvs ! i)))))
   \<and> redact_pii (PList xs) = PList (map redact_pii xs)
   \<and> (json_like v \<longrightarrow> (\<forall>x \<in> set (pii_values (redact_pii v)). x = PStr ''[REDACTED]''))"
proof (intro conjI)
  show "\<exists>out. redact_pii (PDict kvs) = PDict out \<and> length out = length kvs \<and>
      (\<forall>i<length kvs. out ! i =
         (fst (kvs ! i),
          if fst (kvs ! i) \<in> {''vendor_tax_id'', ''bank_account'', ''vendor_email'', ''buyer_email''}
          then PStr ''[REDACTED]'' else redact_pii (snd (kvs ! i))))"
    by (simp add: PII_KEYS_def REDACT_PLACEHOLDER_def split: prod.splits)
  show "redact_pii (PList xs) = PList (map redact_pii xs)" by simp
  show "json_like v \<longrightarrow> (\<forall>x \<in> set (pii_values (redact_pii v)). x = PStr ''[REDACTED]'')"
    using pii_values_redact_pii [of v] by (simp add: REDACT_PLACEHOLDER_def)
qed

theorem redact_pii_redacts_witness:
  "redact_pii (PDict [(''vendor_email'', PStr ''a@b.c''),
                      (''items'', PList [PDict [(''bank_account'', PInt 12345), (''n'', PInt 1)]])])
     = PDict [(''vendor_email'', PStr ''[REDACTED]''),
              (''items'', PList [PDict [(''bank_account'', PStr ''[REDACTED]''), (''n'', PInt 1)]])]
   \<and> json_like (PDict [(''vendor_email'', PStr ''a@b.c''),
                      (''items'', PList [PDict [(''bank_account'', PInt 12345), (''n'', PInt 1)]])])
   \<and> pii_values (redact_pii (PDict [(''vendor_email'', PStr ''a@b.c''),
                      (''items'', PList [PDict [(''bank_account'', PInt 12345), (''n'', PInt 1)]])]))
       = [PStr ''[REDACTED]'', PStr ''[REDACTED]'']"
  using redact_pii_redacts [of "[(''vendor_email'', PStr ''a@b.c''),
                      (''items'', PList [PDict [(''bank_account'', PInt 12345), (''n'', PInt 1)]])]"
      "[PDict [(''bank_account'', PInt 12345), (''n'', PInt 1)]]"
      "PDict [(''vendor_email'', PStr ''a@b.c''),
                      (''items'', PList [PDict [(''bank_account'', PInt 12345), (''n'', PInt 1)]])]"]
  by (simp add: PII_KEYS_def REDACT_PLACEHOLDER_def)

text \<open>
  Claim C10. \<open>redact_pii\<close> is idempotent; the output for a dictionary is a dictionary
  with the same keys in the same order, the output for a list is a list of the same
  length; a value that is neither a dictionary nor a list is returned as it is, and so
  is a tuple, whose contents are not visited.
\<close>

theorem redact_pii_idempotent_structure:
  "redact_pii (redact_pii x) = redact_pii x
   \<and> (\<exists>out. redact_pii (PDict kvs) = PDict out \<and> map fst out = map fst kvs)
   \<and> (\<exists>ys. redact_pii (PList xs) = PList ys \<and> length ys = length xs)
   \<and> ((\<forall>d. x \<noteq> PDict d) \<and> (\<forall>l. x \<noteq> PList l) \<longrightarrow> redact_pii x = x)
   \<and> redact_pii (PTuple ts) = PTuple ts"
proof (intro conjI)
  show "redact_pii (redact_pii x) = redact_pii x" by (rule redact_pii_idem)
  show "\<exists>out. redact_pii (PDict kvs) = PDict out \<and> map fst out = map fst kvs"
    by (simp add: comp_def split: prod.splits)
  show "\<exists>ys. redact_pii (PList xs) = PList ys \<and> length ys = length xs" by simp
  show "(\<forall>d. x \<noteq> PDict d) \<and> (\<forall>l. x \<noteq> PList l) \<longrightarrow> redact_pii x = x"
    by (cases x) simp_all
  show "redact_pii (PTuple ts) = PTuple ts" by simp
qed

theorem redact_pii_idempotent_structure_witness:
  "redact_pii (PTuple [PDict [(''bank_account'', PInt 12345)]])
     = PTuple [PDict [(''bank_account'', PInt 12345)]]
   \<and> redact_pii (redact_pii (PDict [(''bank_account'', PInt 12345), (''k'', PList [PInt 1, PInt 2])]))
     = PDict [(''bank_account'', PStr ''[REDACTED]''), (''k'', PList [PInt 1, PInt 2])]"
  using redact_pii_idempotent_structure
    [of "PTuple [PDict [(''bank_account'', PInt 12345)]]" "[]" "[]" "[]"]
    redact_pii_idempotent_structure
    [of "PDict [(''bank_account'', PInt 12345), (''k'', PList [PInt 1, PInt 2])]" "[]" "[]" "[]"]
  by (simp add: PII_KEYS_def REDACT_PLACEHOLDER_def)

section \<open>Properties of the approval check\<close>

text \<open>
  Claim C3. For a state with a pending payment: when the amount is at or above the
  threshold (equal included), \<open>check_approval_node\<close>, run without a resume value,
  interrupts with the prompt made of the question text, the invoice id, the amount and
  the threshold, and the run is suspended with the state as it was; when the amount is
  strictly below the threshold the node never interrupts, whatever resume value there
  is, and sets approval to true, status to pending and hitl_prompt to \<open>None\<close>. The
  witness takes the default threshold 5000 with the amounts 5000 and 4999.
\<close>

theorem check_approval_node_threshold:
  "st_pending_payment st = Some p \<Longrightarrow>
     (threshold \<le> pp_amount p \<longrightarrow>
        check_approval_node threshold st None =
          Interrupt \<lparr>hp_question = ''Ready to pay this $'' @ format_2f (pp_amount p)
                                     @ '' invoice. Approve?'',
                     hp_invoice_id = pp_invoice_id p,
                     hp_amount_usd = pp_amount p,
                     hp_approval_threshold_usd = threshold\<rparr>
        \<and> (\<exists>prompt. from_check_approval threshold st None w = (Suspended prompt st, w)))
     \<and> (pp_amount p < threshold \<longrightarrow>
          (\<forall>resume_value.
             check_approval_node threshold st resume_value =
               Update (st\<lparr>st_approval := Some True, st_status := Some Pending,
                           st_hitl_prompt := None\<rparr>)))"
  by (simp add: check_approval_node_def from_check_approval_def Let_def)

theorem check_approval_node_threshold_witness:
  "check_approval_node 5000
     ((initial_state (Some ''V001''))
        \<lparr>st_pending_payment := Some \<lparr>pp_invoice_id = ''INV-001'', pp_amount = 5000,
                                       pp_vendor_id = ''V001''\<rparr>\<rparr>) None
     = Interrupt \<lparr>hp_question = ''Ready to pay this $'' @ format_2f 5000 @ '' invoice. Approve?'',
                  hp_invoice_id = ''INV-001'', hp_amount_usd = 5000,
                  hp_approval_threshold_usd = 5000\<rparr>
   \<and> check_approval_node 5000
     ((initial_state (Some ''V001''))
        \<lparr>st_pending_payment := Some \<lparr>pp_invoice_id = ''INV-001'', pp_amount = 4999,
                                       pp_vendor_id = ''V001''\<rparr>\<rparr>) None
     = Update ((initial_state (Some ''V001''))
        \<lparr>st_pending_payment := Some \<lparr>pp_invoice_id = ''INV-001'', pp_amount = 4999,
                                       pp_vendor_id = ''V001''\<rparr>,
         st_approval := Some True, st_status := Some Pending, st_hitl_prompt := None\<rparr>)"
proof
  let ?p = "\<lparr>pp_invoice_id = ''INV-001'', pp_amount = 5000, pp_vendor_id = ''V001''\<rparr>"
  let ?st = "(initial_state (Some ''V001''))\<lparr>st_pending_payment := Some ?p\<rparr>"
  have a: "st_pending_payment ?st = Some ?p" by simp
  have b: "(5000::rat) \<le> pp_amount ?p" by simp
  from check_approval_node_threshold [OF a, of 5000, THEN conjunct1, rule_format, OF b, THEN conjunct1]
  show "check_approval_node 5000 ?st None
     = Interrupt \<lparr>hp_question = ''Ready to pay this $'' @ format_2f 5000 @ '' invoice. Approve?'',
                  hp_invoice_id = ''INV-001'', hp_amount_usd = 5000,
                  hp_approval_threshold_usd = 5000\<rparr>"
    by simp
next
  let ?p = "\<lparr>pp_invoice_id = ''INV-001'', pp_amount = 4999, pp_vendor_id = ''V001''\<rparr>"
  let ?st = "(initial_state (Some ''V001''))\<lparr>st_pending_payment := Some ?p\<rparr>"
  have a: "st_pending_payment ?st = Some ?p" by simp
  have b: "pp_amount ?p < (5000::rat)" by simp
  from check_approval_node_threshold [OF a, of 5000, THEN conjunct2, rule_format, OF b, of None]
  show "check_approval_node 5000 ?st None
     = Update ((initial_state (Some ''V001''))
        \<lparr>st_pending_payment := Some ?p,
         st_approval := Some True, st_status := Some Pending, st_hitl_prompt := None\<rparr>)"
    by simp
qed

section \<open>Properties of invoice matching\<close>

text \<open>
  Claim C6. Whenever its lookup of the invoices does not time out,
  \<open>match_invoice_to_po\<close> returns a result. If the invoice id is not among the mocked
  invoices or the PO id not among the mocked purchase orders, the result has score 0,
  \<open>amount_match\<close> false and the message \<open>Invoice or PO not found\<close>. If both are found,
  \<open>amount_match\<close> holds exactly when the absolute difference of the invoice amount and
  the PO total is below 0.01 (on the mocked data that is the same as being at most
  0.01), the score is 1 exactly when the vendor ids agree and \<open>amount_match\<close> holds,
  and it is 0.5 otherwise.
\<close>

theorem match_invoice_to_po_scores:
  "\<not> timeout_draw w (draws w) \<Longrightarrow>
   \<exists>r. match_invoice_to_po \<lparr>mi_invoice_id = invoice_id, mi_po_id = po_id\<rparr> w
          = (Inr r, next_draw w)
     \<and> ((invoice_id \<notin> inv_invoice_id ` set mock_invoice_items
           \<or> po_id \<notin> po_po_id ` set mock_pos)
         \<longrightarrow> rr_match_score r = 0 \<and> \<not> rr_amount_match r
             \<and> rr_message r = ''Invoice or PO not found'')
     \<and> (\<forall>i \<in> set mock_invoice_items. \<forall>p \<in> set mock_pos.
           inv_invoice_id i = invoice_id \<and> po_po_id p = po_id \<longrightarrow>
             (rr_amount_match r \<longleftrightarrow> \<bar>inv_amount i - po_total_amount p\<bar> < 1 / 100)
           \<and> (rr_amount_match r \<longleftrightarrow> \<bar>inv_amount i - po_total_amount p\<bar> \<le> 1 / 100)
           \<and> (rr_match_score r = 1 \<longleftrightarrow> inv_vendor_id i = po_vendor_id p \<and> rr_amount_match r)
           \<and> (\<not> (inv_vendor_id i = po_vendor_id p \<and> rr_amount_match r)
                \<longrightarrow> rr_match_score r = 1 / 2))"
  by (auto simp: match_invoice_to_po_def mock_invoices_def mock_invoice_items_def mock_pos_def
        slice_to_def Let_def)

theorem match_invoice_to_po_scores_witness:
  "\<not> timeout_draw \<lparr>timeout_draw = (\<lambda>i. False), randint_draw = (\<lambda>i. 0), draws = 0\<rparr>
       (draws \<lparr>timeout_draw = (\<lambda>i. False), randint_draw = (\<lambda>i. 0), draws = 0\<rparr>)
   \<and> (\<exists>r. match_invoice_to_po \<lparr>mi_invoice_id = ''INV-001'', mi_po_id = ''PO-101''\<rparr>
             \<lparr>timeout_draw = (\<lambda>i. False), randint_draw = (\<lambda>i. 0), draws = 0\<rparr>
           = (Inr r, next_draw \<lparr>timeout_draw = (\<lambda>i. False), randint_draw = (\<lambda>i. 0), draws = 0\<rparr>)
         \<and> rr_match_score r = 1 \<and> rr_amount_match r)
   \<and> (\<exists>r. match_invoice_to_po \<lparr>mi_invoice_id = ''INV-002'', mi_po_id = ''PO-101''\<rparr>
             \<lparr>timeout_draw = (\<lambda>i. False), randint_draw = (\<lambda>i. 0), draws = 0\<rparr>
           = (Inr r, next_draw \<lparr>timeout_draw = (\<lambda>i. False), randint_draw = (\<lambda>i. 0), draws = 0\<rparr>)
         \<and> rr_match_score r = 1 / 2 \<and> \<not> rr_amount_match r)
   \<and> (\<exists>r. match_invoice_to_po \<lparr>mi_invoice_id = ''INV-009'', mi_po_id = ''PO-101''\<rparr>
             \<lparr>timeout_draw = (\<lambda>i. False), randint_draw = (\<lambda>i. 0), draws = 0\<rparr>
           = (Inr r, next_draw \<lparr>timeout_draw = (\<lambda>i. False), randint_draw = (\<lambda>i. 0), draws = 0\<rparr>)
         \<and> rr_match_score r = 0 \<and> rr_message r = ''Invoice or PO not found'')"
proof -
  let ?w = "\<lparr>timeout_draw = (\<lambda>i. False), randint_draw = (\<lambda>i. 0), draws = 0\<rparr>"
  have h: "\<not> timeout_draw ?w (draws ?w)" by simp
  have a: "\<exists>r. match_invoice_to_po \<lparr>mi_invoice_id = ''INV-001'', mi_po_id = ''PO-101''\<rparr> ?w
           = (Inr r, next_draw ?w) \<and> rr_match_score r = 1 \<and> rr_amount_match r"
    using match_invoice_to_po_scores [OF h, of "''INV-001''" "''PO-101''"]
    by (auto simp: mock_invoice_items_def mock_pos_def)
  have b: "\<exists>r. match_invoice_to_po \<lparr>mi_invoice_id = ''INV-002'', mi_po_id = ''PO-101''\<rparr> ?w
           = (Inr r, next_draw ?w) \<and> rr_match_score r = 1 / 2 \<and> \<not> rr_amount_match r"
    using match_invoice_to_po_scores [OF h, of "''INV-002''" "''PO-101''"]
    by (auto simp: mock_invoice_items_def mock_pos_def)
  have c: "\<exists>r. match_invoice_to_po \<lparr>mi_invoice_id = ''INV-009'', mi_po_id = ''PO-101''\<rparr> ?w
           = (Inr r, next_draw ?w) \<and> rr_match_score r = 0
             \<and> rr_message r = ''Invoice or PO not found''"
    using match_invoice_to_po_scores [OF h, of "''INV-009''" "''PO-101''"]
    by (auto simp: mock_invoice_items_def mock_pos_def)
  from h a b c show ?thesis by blast
qed

section \<open>Properties of the reconciliation step\<close>

lemma match_world_Cons:
  "match_world match (x # xs) (Suc i) w =
     match_world match xs i (snd (match (inv_invoice_id x) (po_policy (inv_vendor_id x)) w))"
  by (induction i) simp_all

lemma match_world_take:
  "i \<le> n \<Longrightarrow> match_world match (take n xs) i w = match_world match xs i w"
  by (induction i) simp_all

lemma reconcile_items_spec:
  "reconcile_items match xs w = (items, w') \<Longrightarrow>
     length items = length xs \<and> w' = match_world match xs (length xs) w \<and>
     (\<forall>i<length xs. items ! i =
        item_of (xs ! i)
          (fst (match (inv_invoice_id (xs ! i)) (po_policy (inv_vendor_id (xs ! i)))
                  (match_world match xs i w))))"
proof (induction xs arbitrary: w items w')
  case Nil
  then show ?case by simp
next
  case (Cons x xs)
  obtain r w1 where m: "match (inv_invoice_id x) (po_policy (inv_vendor_id x)) w = (r, w1)"
    by (cases "match (inv_invoice_id x) (po_policy (inv_vendor_id x)) w")
  obtain rest w2 where rec: "reconcile_items match xs w1 = (rest, w2)"
    by (cases "reconcile_items match xs w1")
  have items: "items = item_of x r # rest" and w': "w' = w2"
    using Cons.prems m rec
    by (auto simp: Let_def po_policy_def item_of_def split: sum.splits)
  note ih = Cons.IH [OF rec]
  have w1: "w1 = snd (match (inv_invoice_id x) (po_policy (inv_vendor_id x)) w)"
    using m by simp
  show ?case
  proof (intro conjI allI impI)
    show "length items = length (x # xs)" using items ih by simp
    show "w' = match_world match (x # xs) (length (x # xs)) w"
      using ih w' w1 by (simp add: match_world_Cons del: match_world.simps)
    fix i assume "i < length (x # xs)"
    show "items ! i =
        item_of ((x # xs) ! i)
          (fst (match (inv_invoice_id ((x # xs) ! i)) (po_policy (inv_vendor_id ((x # xs) ! i)))
                  (match_world match (x # xs) i w)))"
    proof (cases i)
      case 0
      then show ?thesis using items m by simp
    next
      case (Suc j)
      then have "j < length xs" using \<open>i < length (x # xs)\<close> by simp
      then show ?thesis
        using ih items Suc w1 by (simp add: match_world_Cons del: match_world.simps)
    qed
  qed
qed

lemma reconcile_step_success:
  assumes "1 \<le> k" "int k \<le> max_retries" "raises_on_first (fetch vendor_id limit) (k - 1) w"
    and "attempt_outcome (fetch vendor_id limit) k w = Inr invoices"
  shows "reconcile_step max_retries fetch match vendor_id limit w =
           ((fst (reconcile_items match (take 3 invoices) (after_calls (fetch vendor_id limit) k w)),
             None, False),
            snd (reconcile_items match (take 3 invoices) (after_calls (fetch vendor_id limit) k w)))"
  unfolding reconcile_step_def
  by (simp add: run_success [OF assms] split: prod.splits)



text \<open>
  Claim C7. On the path where the fetch succeeds (on attempt \<open>k\<close> within the budget,
  returning \<open>invoices\<close>), \<open>reconcile_step\<close> returns no top-level error and no fallback
  flag, and \<open>min 3 (length invoices)\<close> items, so at most 3. Item \<open>i\<close> holds the \<open>i\<close>-th
  fetched invoice and the outcome of matching it against the PO that \<open>po_policy\<close> gives
  for its vendor: the match result, or \<open>match = None\<close> with the text of the exception as
  \<open>error\<close>. Each invoice is matched exactly once, in fetch order, whatever the earlier
  matches did: the world at item \<open>i\<close> and at the end is the one that one call per
  earlier item leaves.
\<close>

theorem reconcile_step_items:
  assumes "1 \<le> k" "int k \<le> max_retries" "raises_on_first (fetch vendor_id limit) (k - 1) w"
    and "attempt_outcome (fetch vendor_id limit) k w = Inr invoices"
  shows "\<exists>items.
           reconcile_step max_retries fetch match vendor_id limit w =
             ((items, None, False),
              match_world match invoices (length items) (after_calls (fetch vendor_id limit) k w))
         \<and> length items = min 3 (length invoices) \<and> length items \<le> 3
         \<and> (\<forall>i<length items.
               items ! i =
                 item_of (invoices ! i)
                   (fst (match (inv_invoice_id (invoices ! i))
                           (po_policy (inv_vendor_id (invoices ! i)))
                           (match_world match invoices i
                              (after_calls (fetch vendor_id limit) k w)))))"
proof -
  let ?wf = "after_calls (fetch vendor_id limit) k w"
  obtain items w' where ri: "reconcile_items match (take 3 invoices) ?wf = (items, w')"
    by (cases "reconcile_items match (take 3 invoices) ?wf")
  note spec = reconcile_items_spec [OF ri]
  have len: "length items = min 3 (length invoices)" using spec by (simp add: min.commute)
  have step: "reconcile_step max_retries fetch match vendor_id limit w = ((items, None, False), w')"
    using reconcile_step_success [where fetch = fetch and vendor_id = vendor_id and limit = limit
        and match = match, OF assms] ri by simp
  have world: "w' = match_world match invoices (length items) ?wf"
    using spec len by (simp add: match_world_take)
  have each: "\<forall>i<length items.
               items ! i =
                 item_of (invoices ! i)
                   (fst (match (inv_invoice_id (invoices ! i))
                           (po_policy (inv_vendor_id (invoices ! i)))
                           (match_world match invoices i ?wf)))"
  proof (intro allI impI)
    fix i assume i: "i < length items"
    then have i3: "i < 3" "i < length invoices" "i < length (take 3 invoices)" using len by simp_all
    have "items ! i =
        item_of (take 3 invoices ! i)
          (fst (match (inv_invoice_id (take 3 invoices ! i))
                  (po_policy (inv_vendor_id (take 3 invoices ! i)))
                  (match_world match (take 3 invoices) i ?wf)))"
      using spec i3(3) by blast
    then show "items ! i =
                 item_of (invoices ! i)
                   (fst (match (inv_invoice_id (invoices ! i))
                           (po_policy (inv_vendor_id (invoices ! i)))
                           (match_world match invoices i ?wf)))"
      using i3 by (simp add: match_world_take)
  qed
  show ?thesis using step world len each by auto
qed

lemma run_fetch_invoices_eval:
  "run_fetch_invoices None 5 w =
     (if timeout_draw w (draws w) then (Inl (TimeoutError ''ERP API timeout''), next_draw w)
      else (Inr mock_invoice_items, next_draw w))"
  by (simp add: run_fetch_invoices_def new_FetchInvoicesInput_def fetch_pending_invoices_def
        mock_invoices_def slice_to_def mock_invoice_items_def)

theorem reconcile_step_items_witness:
  "raises_on_first (run_fetch_invoices None 5) (2 - 1) demo_rng
   \<and> attempt_outcome (run_fetch_invoices None 5) 2 demo_rng = Inr mock_invoice_items
   \<and> (\<exists>items w'. reconcile_step_mock 3 None 5 demo_rng = ((items, None, False), w')
         \<and> length items = 3
         \<and> map ri_invoice items = mock_invoice_items
         \<and> ri_error (items ! 0) = None
         \<and> ri_match (items ! 1) = None
         \<and> ri_error (items ! 1) = Some ''ERP API timeout'')"
proof -
  let ?f = "run_fetch_invoices None 5"
  have w1: "after_calls ?f 1 demo_rng = demo_rng\<lparr>draws := 1\<rparr>"
    by (simp add: run_fetch_invoices_eval demo_rng_def next_draw_def)
  have w2: "after_calls ?f 2 demo_rng = demo_rng\<lparr>draws := 2\<rparr>"
    by (simp add: eval_nat_numeral run_fetch_invoices_eval demo_rng_def next_draw_def)
  have h3: "raises_on_first ?f (2 - 1) demo_rng"
    by (simp add: raises_on_first_def attempt_outcome_def run_fetch_invoices_eval demo_rng_def)
  have h4: "attempt_outcome ?f 2 demo_rng = Inr mock_invoice_items"
    using w1 by (simp add: attempt_outcome_def run_fetch_invoices_eval demo_rng_def)
  have h1: "(1::nat) \<le> 2" and h2: "int 2 \<le> 3" by simp_all
  from reconcile_step_items [where fetch = run_fetch_invoices and vendor_id = None and limit = 5
        and match = run_match_invoice, OF h1 h2 h3 h4]
  obtain items where
    step: "reconcile_step 3 run_fetch_invoices run_match_invoice None 5 demo_rng =
             ((items, None, False),
              match_world run_match_invoice mock_invoice_items (length items) (after_calls ?f 2 demo_rng))"
    and len: "length items = min 3 (length mock_invoice_items)"
    and each: "\<forall>i<length items.
               items ! i =
                 item_of (mock_invoice_items ! i)
                   (fst (run_match_invoice (inv_invoice_id (mock_invoice_items ! i))
                           (po_policy (inv_vendor_id (mock_invoice_items ! i)))
                           (match_world run_match_invoice mock_invoice_items i
                              (after_calls ?f 2 demo_rng))))"
    by blast
  have len3: "length items = 3" using len by (simp add: mock_invoice_items_def)
  have m0: "run_match_invoice a b (demo_rng\<lparr>draws := 2\<rparr>) = (r, w') \<Longrightarrow> w' = demo_rng\<lparr>draws := 3\<rparr> \<and> \<not> isl r" for a b r w'
    by (auto simp: run_match_invoice_def match_invoice_to_po_def mock_invoices_def demo_rng_def
          next_draw_def Let_def split: option.splits)
  have mw1: "match_world run_match_invoice mock_invoice_items 1 (demo_rng\<lparr>draws := 2\<rparr>)
               = demo_rng\<lparr>draws := 3\<rparr>"
    using m0 by (simp, metis prod.collapse)
  have i0: "items ! 0 = item_of (mock_invoice_items ! 0)
              (fst (run_match_invoice (inv_invoice_id (mock_invoice_items ! 0))
                      (po_policy (inv_vendor_id (mock_invoice_items ! 0))) (demo_rng\<lparr>draws := 2\<rparr>)))"
    using each len3 w2 by simp
  have e0: "ri_error (items ! 0) = None"
    using i0 m0 by (metis (no_types, lifting) item_of_def prod.collapse reconciled_item.select_convs(3) sum.case_eq_if)
  have i1: "items ! 1 = item_of (mock_invoice_items ! 1)
              (fst (run_match_invoice (inv_invoice_id (mock_invoice_items ! 1))
                      (po_policy (inv_vendor_id (mock_invoice_items ! 1))) (demo_rng\<lparr>draws := 3\<rparr>)))"
    using each len3 w2 mw1 by simp
  have t1: "fst (run_match_invoice a b (demo_rng\<lparr>draws := 3\<rparr>)) = Inl (TimeoutError ''ERP API timeout'')" for a b
    by (simp add: run_match_invoice_def match_invoice_to_po_def mock_invoices_def demo_rng_def)
  have e1: "ri_match (items ! 1) = None \<and> ri_error (items ! 1) = Some ''ERP API timeout''"
    using i1 t1 by (simp add: item_of_def)
  have inv: "map ri_invoice items = mock_invoice_items"
  proof (rule nth_equalityI)
    show "length (map ri_invoice items) = length mock_invoice_items"
      using len3 by (simp add: mock_invoice_items_def)
    fix i assume "i < length (map ri_invoice items)"
    then have "i < length items" by simp
    then show "map ri_invoice items ! i = mock_invoice_items ! i"
      using each by (simp add: item_of_def split: sum.splits)
  qed
  show ?thesis
    using h3 h4 step len3 inv e0 e1 unfolding reconcile_step_mock_def by blast
qed

section \<open>Properties of the workflow\<close>










































end
